theory Spec2Isabelle
  imports Main "HOL-Library.Word"
begin

section \<open>Data model of \<^verbatim>\<open>layer_norm_cuda.cpp\<close>\<close>

text \<open>
  The file is the host-side binding of a layer-normalisation kernel. It looks only at the
  metadata of its tensors (shape, element type, device, contiguity, definedness), so a tensor
  is modelled by a record of exactly that metadata. Dimension sizes are \<^verbatim>\<open>int64_t\<close>, the
  two collapsed sizes \<^verbatim>\<open>n1\<close> and \<^verbatim>\<open>n2\<close> are \<^verbatim>\<open>int\<close> (32 bits); both are machine words
  read as two's complement by \<open>sint\<close>.
\<close>

type_synonym int32 = "32 word"
type_synonym int64 = "64 word"
type_synonym IntList = "int64 list"

text \<open>
  The element types that \<^verbatim>\<open>AT_DISPATCH_ALL_TYPES_AND_HALF\<close> dispatches over; the constructor
  names are those of the constants \<^verbatim>\<open>at::kFloat\<close>, \<^verbatim>\<open>at::kDouble\<close>, ... used by the source.
\<close>

datatype ScalarType = kByte | kChar | kShort | kInt | kLong | kHalf | kFloat | kDouble

record Tensor =
  defined :: bool
  sizes :: IntList
  scalar_type :: ScalarType
  is_cuda :: bool
  is_contiguous :: bool

record TensorOptions =
  opt_dtype :: ScalarType
  opt_is_cuda :: bool

text \<open>
  An error message is built by a sequence of stream insertions \<^verbatim>\<open>ss << ...\<close>. The message is
  kept as that sequence: a string literal, a whole shape (an \<^verbatim>\<open>at::IntList\<close>), or a single
  size. How the tensor library prints a shape or a number is not part of this file.
\<close>

datatype insertion = Text string | Shape IntList | Size int64

text \<open>
  The ways a call can fail: \<^verbatim>\<open>throw std::runtime_error(ss.str())\<close> in \<^verbatim>\<open>check_args\<close>, a
  failed \<^verbatim>\<open>AT_ASSERTM\<close> (the \<^verbatim>\<open>CHECK_*\<close> macros), a failed \<^verbatim>\<open>assert\<close> (the program aborts),
  and a read outside a shape (undefined behaviour in C++, made an explicit outcome here).
\<close>

datatype error =
    runtime_error "insertion list"
  | at_assert_error string
  | assert_abort
  | out_of_bounds

text \<open>The two reference parameters \<^verbatim>\<open>int& n1, int& n2\<close>.\<close>

record out_params =
  n1 :: int32
  n2 :: int32

section \<open>Library operations used by the file\<close>

text \<open>\<^verbatim>\<open>ArrayRef::equals\<close>: same length and element-wise equal.\<close>

definition equals :: "IntList \<Rightarrow> IntList \<Rightarrow> bool" where
  "equals xs ys = (length xs = length ys \<and> list_all2 (=) xs ys)"

text \<open>\<^verbatim>\<open>ArrayRef::slice(N)\<close>: drop the first \<open>N\<close> elements.\<close>

definition slice :: "IntList \<Rightarrow> nat \<Rightarrow> IntList" where
  "slice xs n = drop n xs"

text \<open>
  \<^verbatim>\<open>operator[]\<close> of a shape at a C \<^verbatim>\<open>int\<close> index. The library does not check the index; a
  read outside the shape is \<open>None\<close>.
\<close>

definition at_index :: "IntList \<Rightarrow> int \<Rightarrow> int64 option" where
  "at_index xs k = (if 0 \<le> k \<and> k < int (length xs) then Some (xs ! nat k) else None)"

text \<open>
  \<^verbatim>\<open>n *= d\<close> for \<^verbatim>\<open>int n\<close> and \<^verbatim>\<open>int64_t d\<close>: the left operand is converted to \<^verbatim>\<open>int64_t\<close>
  (sign extension), the product is taken in 64 bits (two's complement, wrapping) and the
  result is converted back to \<^verbatim>\<open>int\<close>, which keeps the low 32 bits.
\<close>

definition mul_assign :: "int32 \<Rightarrow> int64 \<Rightarrow> int32" where
  "mul_assign n d = ucast ((scast n :: int64) * d)"

section \<open>\<^verbatim>\<open>compute_n1_n2\<close>\<close>

text \<open>
  The first loop, from index \<open>i\<close> on:
  \<^verbatim>\<open>for (int i = 0; i < (int)normalized_shape.size(); ++i) {
       assert( input.sizes()[i+idiff] == normalized_shape[i] );
       n2 *= normalized_shape[i]; }\<close>
  The \<^verbatim>\<open>assert\<close> is modelled as compiled in (no \<^verbatim>\<open>NDEBUG\<close>): a false condition ends the
  run with \<open>assert_abort\<close>. The numbers of dimensions are far below \<open>2^31\<close>, so the index
  arithmetic in \<^verbatim>\<open>int\<close> is exact and \<open>idiff\<close> and \<open>i\<close> are unbounded integers here.
\<close>

function loop_n2 :: "Tensor \<Rightarrow> IntList \<Rightarrow> int \<Rightarrow> nat \<Rightarrow> out_params \<Rightarrow> error + out_params" where
  "loop_n2 input normalized_shape idiff i d =
     (if i < length normalized_shape then
        (case at_index (sizes input) (int i + idiff) of
           None \<Rightarrow> Inl out_of_bounds
         | Some s \<Rightarrow>
             if s = normalized_shape ! i
             then loop_n2 input normalized_shape idiff (Suc i)
                    (d\<lparr>n2 := mul_assign (n2 d) (normalized_shape ! i)\<rparr>)
             else Inl assert_abort)
      else Inr d)"
  by pat_completeness auto
termination
  by (relation "measure (\<lambda>(input, normalized_shape, idiff, i, d). length normalized_shape - i)") auto

text \<open>
  The second loop, from index \<open>i\<close> on:
  \<^verbatim>\<open>for (int i = 0; i < idiff; ++i) { n1 *= input.sizes()[i]; }\<close>
\<close>

function loop_n1 :: "Tensor \<Rightarrow> int \<Rightarrow> nat \<Rightarrow> out_params \<Rightarrow> error + out_params" where
  "loop_n1 input idiff i d =
     (if int i < idiff then
        (case at_index (sizes input) (int i) of
           None \<Rightarrow> Inl out_of_bounds
         | Some s \<Rightarrow> loop_n1 input idiff (Suc i) (d\<lparr>n1 := mul_assign (n1 d) s\<rparr>))
      else Inr d)"
  by pat_completeness auto
termination
  by (relation "measure (\<lambda>(input, idiff, i, d). nat idiff - i)") auto

declare loop_n2.simps [simp del] loop_n1.simps [simp del]

text \<open>
  \<^verbatim>\<open>compute_n1_n2\<close> writes its results through the references \<^verbatim>\<open>n1\<close> and \<^verbatim>\<open>n2\<close>; the
  argument \<open>d\<close> is what the two variables hold when the function is entered.
\<close>

definition compute_n1_n2 :: "Tensor \<Rightarrow> IntList \<Rightarrow> out_params \<Rightarrow> error + out_params" where
  "compute_n1_n2 input normalized_shape d =
     (let idiff = int (length (sizes input)) - int (length normalized_shape) in
      case loop_n2 input normalized_shape idiff 0 (d\<lparr>n2 := 1\<rparr>) of
        Inl e \<Rightarrow> Inl e
      | Inr d' \<Rightarrow> loop_n1 input idiff 0 (d'\<lparr>n1 := 1\<rparr>))"

section \<open>\<^verbatim>\<open>check_args\<close>\<close>

text \<open>The overload \<^verbatim>\<open>check_args(normalized_shape, gamma, beta)\<close>.\<close>

definition check_args_gamma_beta :: "IntList \<Rightarrow> Tensor \<Rightarrow> Tensor \<Rightarrow> error + unit" where
  "check_args_gamma_beta normalized_shape gamma beta =
     (if defined gamma \<and> \<not> equals (sizes gamma) normalized_shape then
        Inl (runtime_error
          [Text ''Expected gamma to be of same shape as normalized_shape, but got '',
           Text ''gamma of shape '', Shape (sizes gamma), Text '' and normalized_shape='',
           Shape normalized_shape])
      else if defined beta \<and> \<not> equals (sizes beta) normalized_shape then
        Inl (runtime_error
          [Text ''Expected beta to be of same shape as normalized_shape, but got '',
           Text ''beta of shape '', Shape (sizes beta), Text '' and normalized_shape='',
           Shape normalized_shape])
      else Inr ())"

text \<open>The overload \<^verbatim>\<open>check_args(input, normalized_shape, n1, n2)\<close>.\<close>

definition check_args :: "Tensor \<Rightarrow> IntList \<Rightarrow> out_params \<Rightarrow> error + out_params" where
  "check_args input normalized_shape d =
     (let normalized_ndim = length normalized_shape in
      if normalized_ndim < 1 then
        Inl (runtime_error
          [Text ''Expected normalized_shape to be at least 1-dimensional, i.e., '',
           Text ''containing at least one element, but got normalized_shape='',
           Shape normalized_shape])
      else
        let input_shape = sizes input;
            input_ndim = length input_shape
        in
          if input_ndim < normalized_ndim \<or>
             \<not> equals (slice input_shape (input_ndim - normalized_ndim)) normalized_shape
          then
            Inl (runtime_error
              ([Text ''Given normalized_shape='', Shape normalized_shape,
                Text '', expected input with shape [*'']
               @ concat (map (\<lambda>size. [Text '', '', Size size]) normalized_shape)
               @ [Text ''], but got input of size'', Shape input_shape]))
          else compute_n1_n2 input normalized_shape d)"

text \<open>The overload \<^verbatim>\<open>check_args(input, normalized_shape, gamma, beta, n1, n2)\<close>.\<close>

definition check_args_all ::
  "Tensor \<Rightarrow> IntList \<Rightarrow> Tensor \<Rightarrow> Tensor \<Rightarrow> out_params \<Rightarrow> error + out_params" where
  "check_args_all input normalized_shape gamma beta d =
     (case check_args input normalized_shape d of
        Inl e \<Rightarrow> Inl e
      | Inr d' \<Rightarrow>
          (case check_args_gamma_beta normalized_shape gamma beta of
             Inl e \<Rightarrow> Inl e
           | Inr u \<Rightarrow> Inr d'))"

section \<open>Effects: allocation and kernel dispatch\<close>

text \<open>
  The entry points allocate output tensors and dispatch to the CUDA kernel. Both are effects
  the caller can observe, so they are recorded, in order, in a log that every entry point
  threads through. An error ends the call and keeps the log as it is at that moment.
  The type parameter \<open>'e\<close> is the type of \<^verbatim>\<open>epsilon\<close> (a \<^verbatim>\<open>double\<close> that this file only
  passes on).
\<close>

datatype 'e event =
    Allocated Tensor
  | Dispatch_cuda_layer_norm
      Tensor Tensor Tensor Tensor int32 int32 IntList "Tensor option" "Tensor option" 'e
  | Dispatch_cuda_layer_norm_gradient
      Tensor Tensor Tensor Tensor int32 int32 IntList "Tensor option" "Tensor option" 'e
      Tensor "Tensor option" "Tensor option"

type_synonym ('a, 'e) exec = "'e event list \<Rightarrow> (error + 'a) \<times> 'e event list"

definition returnE :: "'a \<Rightarrow> ('a, 'e) exec" where
  "returnE x s = (Inr x, s)"

definition liftE :: "error + 'a \<Rightarrow> ('a, 'e) exec" where
  "liftE r s = (r, s)"

definition bindE :: "('a, 'e) exec \<Rightarrow> ('a \<Rightarrow> ('b, 'e) exec) \<Rightarrow> ('b, 'e) exec" where
  "bindE m f s = (case m s of (Inl e, s') \<Rightarrow> (Inl e, s') | (Inr x, s') \<Rightarrow> f x s')"

text \<open>
  \<^verbatim>\<open>input.options()\<close> and \<^verbatim>\<open>.dtype(t)\<close>, and the two allocation functions of the tensor
  library, \<^verbatim>\<open>at::empty(sizes, options)\<close> and \<^verbatim>\<open>at::empty_like(t)\<close>: each returns a fresh
  defined, contiguous tensor of the requested shape, element type and device, and is recorded
  in the log. The checks the library itself makes on the requested sizes are not modelled.
\<close>

definition options :: "Tensor \<Rightarrow> TensorOptions" where
  "options t = \<lparr>opt_dtype = scalar_type t, opt_is_cuda = is_cuda t\<rparr>"

definition dtype :: "TensorOptions \<Rightarrow> ScalarType \<Rightarrow> TensorOptions" where
  "dtype opts t = opts\<lparr>opt_dtype := t\<rparr>"

definition at_empty :: "IntList \<Rightarrow> TensorOptions \<Rightarrow> (Tensor, 'e) exec" where
  "at_empty shape opts s =
     (let t = \<lparr>defined = True, sizes = shape, scalar_type = opt_dtype opts,
                is_cuda = opt_is_cuda opts, is_contiguous = True\<rparr>
      in (Inr t, s @ [Allocated t]))"

definition at_empty_like :: "Tensor \<Rightarrow> (Tensor, 'e) exec" where
  "at_empty_like t = at_empty (sizes t) (options t)"

text \<open>
  Modelled from the spec: the kernels \<^verbatim>\<open>cuda_layer_norm\<close> and \<^verbatim>\<open>cuda_layer_norm_gradient\<close>
  are only declared in this file. The spec treats them as an external collaborator that
  receives \<open>(n1, n2, normalizedShape, optional scale, optional shift, epsilon)\<close> and the
  buffer handles; the model records the dispatch with its arguments and nothing else. A
  \<^verbatim>\<open>NULL\<close> pointer argument is \<open>None\<close>.
\<close>

definition cuda_layer_norm ::
  "Tensor \<Rightarrow> Tensor \<Rightarrow> Tensor \<Rightarrow> Tensor \<Rightarrow> int32 \<Rightarrow> int32 \<Rightarrow> IntList \<Rightarrow>
   Tensor option \<Rightarrow> Tensor option \<Rightarrow> 'e \<Rightarrow> (unit, 'e) exec" where
  "cuda_layer_norm output mean invvar input m1 m2 normalized_shape gamma beta epsilon s =
     (Inr (), s @ [Dispatch_cuda_layer_norm output mean invvar input m1 m2
                     normalized_shape gamma beta epsilon])"

definition cuda_layer_norm_gradient ::
  "Tensor \<Rightarrow> Tensor \<Rightarrow> Tensor \<Rightarrow> Tensor \<Rightarrow> int32 \<Rightarrow> int32 \<Rightarrow> IntList \<Rightarrow>
   Tensor option \<Rightarrow> Tensor option \<Rightarrow> 'e \<Rightarrow> Tensor \<Rightarrow> Tensor option \<Rightarrow> Tensor option \<Rightarrow>
   (unit, 'e) exec" where
  "cuda_layer_norm_gradient dout mean invvar input m1 m2 normalized_shape gamma beta epsilon
     grad_input grad_gamma grad_beta s =
     (Inr (), s @ [Dispatch_cuda_layer_norm_gradient dout mean invvar input m1 m2
                     normalized_shape gamma beta epsilon grad_input grad_gamma grad_beta])"

section \<open>\<^verbatim>\<open>allocate_layer_norm_output_tensors\<close>\<close>

text \<open>
  The function template and its two explicit specialisations, selected by the element type
  \<^verbatim>\<open>T\<close> of \<^verbatim>\<open>input_data\<close>: \<^verbatim>\<open>int64_t\<close> and \<^verbatim>\<open>double\<close> have their own bodies, every other
  type takes the primary template. The braced list \<^verbatim>\<open>{n1}\<close> converts the \<^verbatim>\<open>int\<close> to
  \<^verbatim>\<open>int64_t\<close> (sign extension).
\<close>

fun allocate_layer_norm_output_tensors ::
  "ScalarType \<Rightarrow> Tensor \<Rightarrow> int32 \<Rightarrow> (Tensor \<times> Tensor \<times> Tensor, 'e) exec" where
  "allocate_layer_norm_output_tensors kLong input m1 =
     bindE (at_empty_like input) (\<lambda>output.
     bindE (at_empty [scast m1] (dtype (options input) kDouble)) (\<lambda>mean.
     bindE (at_empty_like mean) (\<lambda>invvar.
     returnE (output, mean, invvar))))"
| "allocate_layer_norm_output_tensors kDouble input m1 =
     bindE (at_empty_like input) (\<lambda>output.
     bindE (at_empty [scast m1] (dtype (options input) kDouble)) (\<lambda>mean.
     bindE (at_empty_like mean) (\<lambda>invvar.
     returnE (output, mean, invvar))))"
| "allocate_layer_norm_output_tensors T input m1 =
     bindE (at_empty_like input) (\<lambda>output.
     bindE (at_empty [scast m1] (dtype (options input) kFloat)) (\<lambda>mean.
     bindE (at_empty_like mean) (\<lambda>invvar.
     returnE (output, mean, invvar))))"

text \<open>
  \<^verbatim>\<open>AT_DISPATCH_ALL_TYPES_AND_HALF(input.type(), name, body)\<close> runs \<open>body\<close> with \<^verbatim>\<open>scalar_t\<close>
  bound to the element type of the tensor.
\<close>

definition AT_DISPATCH_ALL_TYPES_AND_HALF ::
  "ScalarType \<Rightarrow> (ScalarType \<Rightarrow> ('a, 'e) exec) \<Rightarrow> ('a, 'e) exec" where
  "AT_DISPATCH_ALL_TYPES_AND_HALF the_type body = body the_type"

section \<open>The entry points\<close>

text \<open>
  \<^verbatim>\<open>CHECK_CUDA(x)\<close>, \<^verbatim>\<open>CHECK_CONTIGUOUS(x)\<close> and \<^verbatim>\<open>CHECK_INPUT(x)\<close>; the first argument is
  the stringified macro argument \<^verbatim>\<open>#x\<close>.
\<close>

definition CHECK_CUDA :: "string \<Rightarrow> Tensor \<Rightarrow> error + unit" where
  "CHECK_CUDA x_name x =
     (if is_cuda x then Inr () else Inl (at_assert_error (x_name @ '' must be a CUDA tensor'')))"

definition CHECK_CONTIGUOUS :: "string \<Rightarrow> Tensor \<Rightarrow> error + unit" where
  "CHECK_CONTIGUOUS x_name x =
     (if is_contiguous x then Inr () else Inl (at_assert_error (x_name @ '' must be contiguous'')))"

definition CHECK_INPUT :: "string \<Rightarrow> Tensor \<Rightarrow> error + unit" where
  "CHECK_INPUT x_name x =
     (case CHECK_CUDA x_name x of Inl e \<Rightarrow> Inl e | Inr u \<Rightarrow> CHECK_CONTIGUOUS x_name x)"

text \<open>
  Each entry point declares \<^verbatim>\<open>int n1,n2;\<close> without initialising them; \<open>d0\<close> is whatever the
  two variables hold at that point.
\<close>

definition layer_norm ::
  "Tensor \<Rightarrow> IntList \<Rightarrow> 'e \<Rightarrow> out_params \<Rightarrow> (Tensor list, 'e) exec" where
  "layer_norm input normalized_shape epsilon d0 =
     bindE (liftE (CHECK_INPUT ''input'' input)) (\<lambda>u.
     bindE (liftE (check_args input normalized_shape d0)) (\<lambda>d.
     bindE (AT_DISPATCH_ALL_TYPES_AND_HALF (scalar_type input)
              (\<lambda>scalar_t. allocate_layer_norm_output_tensors scalar_t input (n1 d)))
       (\<lambda>(output, mean, invvar).
     bindE (cuda_layer_norm output mean invvar input (n1 d) (n2 d)
              normalized_shape None None epsilon) (\<lambda>u.
     returnE [output, mean, invvar]))))"

definition layer_norm_affine ::
  "Tensor \<Rightarrow> IntList \<Rightarrow> Tensor \<Rightarrow> Tensor \<Rightarrow> 'e \<Rightarrow> out_params \<Rightarrow> (Tensor list, 'e) exec" where
  "layer_norm_affine input normalized_shape gamma beta epsilon d0 =
     bindE (liftE (CHECK_INPUT ''input'' input)) (\<lambda>u.
     bindE (liftE (CHECK_INPUT ''gamma'' gamma)) (\<lambda>u.
     bindE (liftE (CHECK_INPUT ''beta'' beta)) (\<lambda>u.
     bindE (liftE (check_args_all input normalized_shape gamma beta d0)) (\<lambda>d.
     bindE (AT_DISPATCH_ALL_TYPES_AND_HALF (scalar_type input)
              (\<lambda>scalar_t. allocate_layer_norm_output_tensors scalar_t input (n1 d)))
       (\<lambda>(output, mean, invvar).
     bindE (cuda_layer_norm output mean invvar input (n1 d) (n2 d)
              normalized_shape (Some gamma) (Some beta) epsilon) (\<lambda>u.
     returnE [output, mean, invvar]))))))"

definition layer_norm_gradient ::
  "Tensor \<Rightarrow> Tensor \<Rightarrow> Tensor \<Rightarrow> Tensor \<Rightarrow> IntList \<Rightarrow> 'e \<Rightarrow> out_params \<Rightarrow> (Tensor, 'e) exec" where
  "layer_norm_gradient dout mean invvar input normalized_shape epsilon d0 =
     bindE (liftE (CHECK_INPUT ''dout'' dout)) (\<lambda>u.
     bindE (liftE (CHECK_INPUT ''mean'' mean)) (\<lambda>u.
     bindE (liftE (CHECK_INPUT ''invvar'' invvar)) (\<lambda>u.
     bindE (liftE (CHECK_INPUT ''input'' input)) (\<lambda>u.
     bindE (liftE (check_args input normalized_shape d0)) (\<lambda>d.
     bindE (at_empty_like input) (\<lambda>grad_input.
     bindE (cuda_layer_norm_gradient dout mean invvar input (n1 d) (n2 d)
              normalized_shape None None epsilon grad_input None None) (\<lambda>u.
     returnE grad_input)))))))"

definition layer_norm_gradient_affine ::
  "Tensor \<Rightarrow> Tensor \<Rightarrow> Tensor \<Rightarrow> Tensor \<Rightarrow> IntList \<Rightarrow> Tensor \<Rightarrow> Tensor \<Rightarrow> 'e \<Rightarrow> out_params \<Rightarrow>
   (Tensor list, 'e) exec" where
  "layer_norm_gradient_affine dout mean invvar input normalized_shape gamma beta epsilon d0 =
     bindE (liftE (CHECK_INPUT ''dout'' dout)) (\<lambda>u.
     bindE (liftE (CHECK_INPUT ''mean'' mean)) (\<lambda>u.
     bindE (liftE (CHECK_INPUT ''invvar'' invvar)) (\<lambda>u.
     bindE (liftE (CHECK_INPUT ''input'' input)) (\<lambda>u.
     bindE (liftE (CHECK_INPUT ''gamma'' gamma)) (\<lambda>u.
     bindE (liftE (CHECK_INPUT ''beta'' beta)) (\<lambda>u.
     bindE (liftE (check_args_all input normalized_shape gamma beta d0)) (\<lambda>d.
     bindE (at_empty_like input) (\<lambda>grad_input.
     bindE (at_empty_like gamma) (\<lambda>grad_gamma.
     bindE (at_empty_like beta) (\<lambda>grad_beta.
     bindE (cuda_layer_norm_gradient dout mean invvar input (n1 d) (n2 d)
              normalized_shape (Some gamma) (Some beta) epsilon
              grad_input (Some grad_gamma) (Some grad_beta)) (\<lambda>u.
     returnE [grad_input, grad_gamma, grad_beta])))))))))))"

section \<open>Notions of the specification\<close>

text \<open>
  The specification's data model: a pair of an input shape and a normalized shape is valid
  when the normalized shape has at least one element, the input shape has at least as many
  dimensions, and its last dimensions equal the normalized shape element-wise.
\<close>

definition valid_pair :: "IntList \<Rightarrow> IntList \<Rightarrow> bool" where
  "valid_pair input_shape normalized_shape =
     (normalized_shape \<noteq> [] \<and> length normalized_shape \<le> length input_shape \<and>
      drop (length input_shape - length normalized_shape) input_shape = normalized_shape)"

text \<open>The mathematical product of the entries of a shape, each read as a signed integer.\<close>

definition product :: "IntList \<Rightarrow> int" where
  "product shape = prod_list (map sint shape)"

text \<open>
  The specification's algorithm for either dimension: the left fold of multiplication,
  starting from \<open>1\<close>, over the entries of a shape, as integers.
\<close>

definition left_fold_product :: "IntList \<Rightarrow> int" where
  "left_fold_product shape = foldl (\<lambda>acc size. acc * sint size) 1 shape"

text \<open>The values of a 32-bit signed \<^verbatim>\<open>int\<close>.\<close>

definition fits_int32 :: "int \<Rightarrow> bool" where
  "fits_int32 k = (- (2 ^ 31) \<le> k \<and> k < 2 ^ 31)"

text \<open>
  The specification asks for statistics in ``a float type of extended precision relative to
  the input's element type'': a floating-point type that carries more significant bits than
  the element type it is compared with. The number of significant bits is the significand
  width of a floating-point type (IEEE 754) and the number of value bits of an integer type.
\<close>

fun is_floating :: "ScalarType \<Rightarrow> bool" where
  "is_floating kHalf = True"
| "is_floating kFloat = True"
| "is_floating kDouble = True"
| "is_floating T = False"

fun significant_bits :: "ScalarType \<Rightarrow> nat" where
  "significant_bits kByte = 8"
| "significant_bits kChar = 7"
| "significant_bits kShort = 15"
| "significant_bits kInt = 31"
| "significant_bits kLong = 63"
| "significant_bits kHalf = 11"
| "significant_bits kFloat = 24"
| "significant_bits kDouble = 53"

definition extended_precision_float :: "ScalarType \<Rightarrow> ScalarType \<Rightarrow> bool" where
  "extended_precision_float result_type element_type =
     (is_floating result_type \<and> significant_bits element_type < significant_bits result_type)"

section \<open>Auxiliary facts\<close>

subsection \<open>Shapes and machine arithmetic\<close>

lemma equals_iff: "equals xs ys \<longleftrightarrow> xs = ys"
  by (auto simp: equals_def list_all2_eq[symmetric] dest: list_all2_lengthD)

lemma take_bit_mult_cong:
  fixes a b a' b' :: int
  assumes "take_bit m a = take_bit m a'" and "take_bit m b = take_bit m b'"
  shows "take_bit m (a * b) = take_bit m (a' * b')"
proof -
  have "take_bit m (a * b) = take_bit m (take_bit m a * take_bit m b)"
    by (simp only: take_bit_mult)
  also have "\<dots> = take_bit m (take_bit m a' * take_bit m b')"
    by (simp only: assms)
  also have "\<dots> = take_bit m (a' * b')"
    by (simp only: take_bit_mult)
  finally show ?thesis .
qed

lemma mul_assign_eq: "mul_assign n d = n * word_of_int (sint d)"
  unfolding mul_assign_def
  apply transfer
  apply simp
  apply (rule take_bit_mult_cong)
   apply (simp_all add: take_bit_signed_take_bit)
  done

lemma foldl_mul_assign: "foldl mul_assign a xs = a * word_of_int (product xs)"
proof (induction xs arbitrary: a)
  case Nil
  show ?case by (simp add: product_def)
next
  case (Cons x xs)
  have "foldl mul_assign a (x # xs) = foldl mul_assign (mul_assign a x) xs"
    by simp
  also have "\<dots> = (a * word_of_int (sint x)) * word_of_int (product xs)"
    by (simp only: Cons.IH mul_assign_eq)
  also have "\<dots> = a * word_of_int (sint x * product xs)"
    by (simp only: wi_hom_mult mult.assoc)
  also have "sint x * product xs = product (x # xs)"
    by (simp add: product_def)
  finally show ?case .
qed

lemma loop_n2_suffix:
  assumes "sizes input = pre @ ns" and "idiff = int (length pre)"
  shows "loop_n2 input ns idiff i d = Inr (d\<lparr>n2 := foldl mul_assign (n2 d) (drop i ns)\<rparr>)"
  using assms
proof (induction input ns idiff i d rule: loop_n2.induct)
  case (1 input ns idiff i d)
  show ?case
  proof (cases "i < length ns")
    case True
    have at: "at_index (sizes input) (int i + idiff) = Some (ns ! i)"
      using True 1(2,3) by (simp add: at_index_def nth_append nat_add_distrib)
    have "loop_n2 input ns idiff i d =
            loop_n2 input ns idiff (Suc i) (d\<lparr>n2 := mul_assign (n2 d) (ns ! i)\<rparr>)"
      using True at by (subst loop_n2.simps) simp
    also have "\<dots> = Inr (d\<lparr>n2 := foldl mul_assign (mul_assign (n2 d) (ns ! i)) (drop (Suc i) ns)\<rparr>)"
      using 1(1)[OF True at refl 1(2,3)] by simp
    also have "drop i ns = ns ! i # drop (Suc i) ns"
      using True by (simp add: Cons_nth_drop_Suc)
    then have "foldl mul_assign (mul_assign (n2 d) (ns ! i)) (drop (Suc i) ns) =
               foldl mul_assign (n2 d) (drop i ns)"
      by simp
    finally show ?thesis .
  next
    case False
    then show ?thesis by (subst loop_n2.simps) simp
  qed
qed

lemma loop_n1_prefix:
  assumes "0 \<le> idiff" and "nat idiff \<le> length (sizes input)"
  shows "loop_n1 input idiff i d =
           Inr (d\<lparr>n1 := foldl mul_assign (n1 d) (drop i (take (nat idiff) (sizes input)))\<rparr>)"
  using assms
proof (induction input idiff i d rule: loop_n1.induct)
  case (1 input idiff i d)
  let ?pre = "take (nat idiff) (sizes input)"
  show ?case
  proof (cases "int i < idiff")
    case True
    then have lt: "i < length ?pre" using 1(2,3) by simp
    have at: "at_index (sizes input) (int i) = Some (sizes input ! i)"
      using True 1(2,3) by (simp add: at_index_def)
    have nth: "?pre ! i = sizes input ! i"
      using True by simp
    have "loop_n1 input idiff i d =
            loop_n1 input idiff (Suc i) (d\<lparr>n1 := mul_assign (n1 d) (sizes input ! i)\<rparr>)"
      using True at by (subst loop_n1.simps) simp
    also have "\<dots> = Inr (d\<lparr>n1 := foldl mul_assign (mul_assign (n1 d) (sizes input ! i)) (drop (Suc i) ?pre)\<rparr>)"
      using 1(1)[OF True at 1(2,3)] by simp
    also have "drop i ?pre = sizes input ! i # drop (Suc i) ?pre"
      using lt nth by (metis Cons_nth_drop_Suc)
    then have "foldl mul_assign (mul_assign (n1 d) (sizes input ! i)) (drop (Suc i) ?pre) =
               foldl mul_assign (n1 d) (drop i ?pre)"
      by simp
    finally show ?thesis .
  next
    case False
    then have "drop i ?pre = []" using 1(2,3) by simp
    with False show ?thesis by (subst loop_n1.simps) simp
  qed
qed

lemma compute_n1_n2_suffix:
  assumes "sizes input = pre @ ns"
  shows "compute_n1_n2 input ns d =
           Inr \<lparr>n1 = foldl mul_assign 1 pre, n2 = foldl mul_assign 1 ns\<rparr>"
proof -
  have "compute_n1_n2 input ns d = Inr (d\<lparr>n2 := foldl mul_assign 1 ns, n1 := foldl mul_assign 1 pre\<rparr>)"
    using assms
    by (simp add: compute_n1_n2_def Let_def loop_n2_suffix[OF assms refl]
        loop_n1_prefix)
  then show ?thesis by (cases d) simp
qed

lemma valid_pair_split:
  assumes "valid_pair input_shape ns"
  shows "input_shape = take (length input_shape - length ns) input_shape @ ns"
  using assms by (metis append_take_drop_id valid_pair_def)

lemma check_args_valid:
  assumes "valid_pair (sizes input) ns"
  shows "check_args input ns d =
           Inr \<lparr>n1 = foldl mul_assign 1 (take (length (sizes input) - length ns) (sizes input)),
                n2 = foldl mul_assign 1 ns\<rparr>"
proof -
  have "compute_n1_n2 input ns d =
           Inr \<lparr>n1 = foldl mul_assign 1 (take (length (sizes input) - length ns) (sizes input)),
                n2 = foldl mul_assign 1 ns\<rparr>"
    by (rule compute_n1_n2_suffix [OF valid_pair_split [OF assms]])
  then show ?thesis
    using assms by (auto simp: check_args_def Let_def valid_pair_def equals_iff slice_def)
qed

lemma sint_int32_iff: "sint (word_of_int k :: int32) = k \<longleftrightarrow> fits_int32 k"
  by (simp add: fits_int32_def sint_sbintrunc' signed_take_bit_int_eq_self_iff)

lemma sint_int32_fits: "fits_int32 k \<Longrightarrow> sint (word_of_int k :: int32) = k"
  by (simp add: sint_int32_iff)

lemma product_append: "product (xs @ ys) = product xs * product ys"
  by (simp add: product_def)

lemma check_args_valid_product:
  assumes "valid_pair (sizes input) ns"
  shows "check_args input ns d =
           Inr \<lparr>n1 = word_of_int (product (take (length (sizes input) - length ns) (sizes input))),
                n2 = word_of_int (product ns)\<rparr>"
  by (simp add: check_args_valid [OF assms] foldl_mul_assign)

section \<open>The dimensions returned for a valid pair\<close>

text \<open>
  C1 (amended). For every valid pair, that is, a normalized shape that is a non-empty
  suffix of the input shape, \<open>check_args\<close> returns \<open>(n1, n2)\<close> whose product in \<^verbatim>\<open>int\<close>
  arithmetic is the product of all entries of the input shape reduced to 32 bits. When the
  product of the leading dimensions and the product of the normalized dimensions both fit in
  a 32-bit signed \<^verbatim>\<open>int\<close>, \<open>n1 * n2\<close> is the product of all entries of the input shape as
  integers.
\<close>

theorem resolveDimensions_product_mod:
  assumes "valid_pair (sizes input) normalized_shape"
  shows "\<exists>r. check_args input normalized_shape d = Inr r \<and>
           n1 r * n2 r = word_of_int (product (sizes input)) \<and>
           (fits_int32 (product (take (length (sizes input) - length normalized_shape) (sizes input))) \<and>
            fits_int32 (product normalized_shape) \<longrightarrow>
              sint (n1 r) * sint (n2 r) = product (sizes input))"
proof -
  let ?pre = "take (length (sizes input) - length normalized_shape) (sizes input)"
  let ?r = "\<lparr>n1 = word_of_int (product ?pre), n2 = word_of_int (product normalized_shape)\<rparr>"
  have split: "product (sizes input) = product ?pre * product normalized_shape"
    using valid_pair_split [OF assms] product_append by metis
  have "check_args input normalized_shape d = Inr ?r"
    by (rule check_args_valid_product [OF assms])
  moreover have "n1 ?r * n2 ?r = word_of_int (product (sizes input))"
    by (simp only: split out_params.simps wi_hom_mult)
  moreover have "sint (n1 ?r) * sint (n2 ?r) = product (sizes input)"
    if "fits_int32 (product ?pre) \<and> fits_int32 (product normalized_shape)"
    using that by (simp add: split sint_int32_fits)
  ultimately show ?thesis by blast
qed

text \<open>The theorem at the input shape \<open>[2, 3, 8]\<close> with normalized shape \<open>[3, 8]\<close>.\<close>

theorem resolveDimensions_product_mod_witness:
  "\<exists>r. check_args \<lparr>defined = True, sizes = [2, 3, 8], scalar_type = kFloat,
            is_cuda = True, is_contiguous = True\<rparr> [3, 8] \<lparr>n1 = 0, n2 = 0\<rparr> = Inr r \<and>
       n1 r * n2 r = 48 \<and> sint (n1 r) * sint (n2 r) = 48"
  using resolveDimensions_product_mod [of
      "\<lparr>defined = True, sizes = [2, 3, 8], scalar_type = kFloat,
        is_cuda = True, is_contiguous = True\<rparr>" "[3, 8]" "\<lparr>n1 = 0, n2 = 0\<rparr>"]
  by (simp add: valid_pair_def product_def fits_int32_def)

text \<open>
  Without the bound the products differ: for a byte tensor of shape \<open>[65536, 65536, 1]\<close>
  normalized over \<open>[1]\<close> the 32-bit accumulator \<open>n1\<close> wraps to \<open>0\<close>, so \<open>n1 * n2 = 0\<close>, while
  the input has \<open>4294967296\<close> elements.
\<close>

theorem resolveDimensions_product_counterexample:
  "valid_pair [65536, 65536, 1] [1] \<and>
   check_args \<lparr>defined = True, sizes = [65536, 65536, 1], scalar_type = kByte,
                is_cuda = True, is_contiguous = True\<rparr> [1] \<lparr>n1 = 0, n2 = 0\<rparr>
     = Inr \<lparr>n1 = 0, n2 = 1\<rparr> \<and>
   sint (0 :: int32) * sint (1 :: int32) \<noteq> product [65536, 65536, 1]"
  by (simp add: valid_pair_def product_def check_args_def compute_n1_n2_def equals_def
      slice_def loop_n2.simps loop_n1.simps at_index_def mul_assign_def)

lemma foldl_times_sint: "foldl (\<lambda>acc size. acc * sint size) a xs = a * product xs"
  by (induction xs arbitrary: a) (simp_all add: product_def mult.assoc)

lemma left_fold_product_eq: "left_fold_product xs = product xs"
  by (simp add: left_fold_product_def foldl_times_sint)

text \<open>
  C2 (amended). For every valid pair \<open>check_args\<close> returns \<open>n2\<close> as the left-fold product,
  starting from \<open>1\<close>, over all entries of the normalized shape, and \<open>n1\<close> as the left-fold
  product over the prefix of the input shape of length \<open>len(inputShape) - len(normalizedShape)\<close>,
  each reduced to a 32-bit \<^verbatim>\<open>int\<close>; the returned value is the fold product itself whenever
  that product fits in a 32-bit signed \<^verbatim>\<open>int\<close>. No entry is treated specially, zero and
  negative ones included. In particular the shapes \<open>[4, 8]\<close> and \<open>[8]\<close> give \<open>(4, 8)\<close>, and
  \<open>[2, 3, 8]\<close> and \<open>[3, 8]\<close> give \<open>(2, 24)\<close>.
\<close>

theorem resolveDimensions_left_fold:
  "(valid_pair (sizes input) normalized_shape \<longrightarrow>
      (\<exists>r. check_args input normalized_shape d = Inr r \<and>
         n1 r = word_of_int (left_fold_product
                  (take (length (sizes input) - length normalized_shape) (sizes input))) \<and>
         n2 r = word_of_int (left_fold_product normalized_shape) \<and>
         (fits_int32 (left_fold_product
                  (take (length (sizes input) - length normalized_shape) (sizes input))) \<longrightarrow>
            sint (n1 r) = left_fold_product
                  (take (length (sizes input) - length normalized_shape) (sizes input))) \<and>
         (fits_int32 (left_fold_product normalized_shape) \<longrightarrow>
            sint (n2 r) = left_fold_product normalized_shape))) \<and>
   check_args (input\<lparr>sizes := [4, 8]\<rparr>) [8] d = Inr \<lparr>n1 = 4, n2 = 8\<rparr> \<and>
   check_args (input\<lparr>sizes := [2, 3, 8]\<rparr>) [3, 8] d = Inr \<lparr>n1 = 2, n2 = 24\<rparr>"
proof -
  have "check_args (input\<lparr>sizes := [4, 8]\<rparr>) [8] d = Inr \<lparr>n1 = 4, n2 = 8\<rparr>"
    by (subst check_args_valid) (simp_all add: valid_pair_def mul_assign_def)
  moreover have "check_args (input\<lparr>sizes := [2, 3, 8]\<rparr>) [3, 8] d = Inr \<lparr>n1 = 2, n2 = 24\<rparr>"
    by (subst check_args_valid) (simp_all add: valid_pair_def mul_assign_def)
  moreover have "\<exists>r. check_args input normalized_shape d = Inr r \<and>
         n1 r = word_of_int (left_fold_product
                  (take (length (sizes input) - length normalized_shape) (sizes input))) \<and>
         n2 r = word_of_int (left_fold_product normalized_shape) \<and>
         (fits_int32 (left_fold_product
                  (take (length (sizes input) - length normalized_shape) (sizes input))) \<longrightarrow>
            sint (n1 r) = left_fold_product
                  (take (length (sizes input) - length normalized_shape) (sizes input))) \<and>
         (fits_int32 (left_fold_product normalized_shape) \<longrightarrow>
            sint (n2 r) = left_fold_product normalized_shape)"
    if "valid_pair (sizes input) normalized_shape"
    by (simp add: check_args_valid_product [OF that] left_fold_product_eq sint_int32_fits)
  ultimately show ?thesis
    by blast
qed

text \<open>The theorem at a shape with a zero and a negative entry.\<close>

theorem resolveDimensions_left_fold_witness:
  "valid_pair [5, 0, - 3] [0, - 3] \<and>
   (\<exists>r. check_args \<lparr>defined = True, sizes = [5, 0, - 3], scalar_type = kFloat,
                is_cuda = True, is_contiguous = True\<rparr> [0, - 3] \<lparr>n1 = 7, n2 = 9\<rparr> = Inr r \<and>
        n1 r = 5 \<and> n2 r = 0 \<and> sint (n1 r) = 5 \<and> sint (n2 r) = 0)"
  using resolveDimensions_left_fold [of
      "\<lparr>defined = True, sizes = [5, 0, - 3], scalar_type = kFloat,
        is_cuda = True, is_contiguous = True\<rparr>" "[0, - 3]" "\<lparr>n1 = 7, n2 = 9\<rparr>"]
  by (simp add: valid_pair_def left_fold_product_def fits_int32_def)

text \<open>
  Without the reduction the claim fails: for a byte tensor of shape \<open>[65536, 65536, 1]\<close>
  normalized over \<open>[1]\<close> the left-fold product over the prefix is \<open>4294967296\<close>, and the
  returned \<open>n1\<close> is \<open>0\<close>.
\<close>

theorem resolveDimensions_left_fold_counterexample:
  "valid_pair [65536, 65536, 1] [1] \<and>
   check_args \<lparr>defined = True, sizes = [65536, 65536, 1], scalar_type = kByte,
                is_cuda = True, is_contiguous = True\<rparr> [1] \<lparr>n1 = 0, n2 = 0\<rparr>
     = Inr \<lparr>n1 = 0, n2 = 1\<rparr> \<and>
   left_fold_product (take (length [65536, 65536, 1 :: int64] - length [1 :: int64])
                        [65536, 65536, 1]) = 4294967296 \<and>
   sint (0 :: int32) \<noteq> 4294967296"
  by (simp add: valid_pair_def left_fold_product_def check_args_def compute_n1_n2_def equals_def
      slice_def loop_n2.simps loop_n1.simps at_index_def mul_assign_def)

section \<open>Rejected arguments\<close>

text \<open>
  C3. For every input shape, \<open>check_args\<close> with an empty normalized shape fails: it throws
  the \<^verbatim>\<open>std::runtime_error\<close> for a normalized shape without elements, whose message ends
  with the offending normalized shape, and returns no \<open>(n1, n2)\<close>.
\<close>

theorem resolveDimensions_empty_normalized_shape:
  "check_args input [] d =
     Inl (runtime_error
       [Text ''Expected normalized_shape to be at least 1-dimensional, i.e., '',
        Text ''containing at least one element, but got normalized_shape='',
        Shape []])"
  by (simp add: check_args_def)

text \<open>
  C4. For every non-empty normalized shape, if the input has fewer dimensions than the
  normalized shape, or its trailing dimensions differ from the normalized shape, \<open>check_args\<close>
  fails with the \<^verbatim>\<open>std::runtime_error\<close> whose message holds the normalized shape, the
  expected pattern \<open>[*, d0, d1, ...]\<close> and the input shape. In particular an input without
  dimensions fails this way for the normalized shape \<open>[x]\<close>.
\<close>

theorem resolveDimensions_shape_mismatch:
  "(normalized_shape \<noteq> [] \<and>
    (length (sizes input) < length normalized_shape \<or>
     drop (length (sizes input) - length normalized_shape) (sizes input) \<noteq> normalized_shape) \<longrightarrow>
      check_args input normalized_shape d =
        Inl (runtime_error
          ([Text ''Given normalized_shape='', Shape normalized_shape,
            Text '', expected input with shape [*'']
           @ concat (map (\<lambda>size. [Text '', '', Size size]) normalized_shape)
           @ [Text ''], but got input of size'', Shape (sizes input)]))) \<and>
   check_args (input\<lparr>sizes := []\<rparr>) [x] d =
     Inl (runtime_error
       [Text ''Given normalized_shape='', Shape [x],
        Text '', expected input with shape [*'', Text '', '', Size x,
        Text ''], but got input of size'', Shape []])"
  by (auto simp: check_args_def Let_def equals_iff slice_def)

text \<open>The theorem at the input shape \<open>[4, 8]\<close> with normalized shape \<open>[4]\<close>.\<close>

theorem resolveDimensions_shape_mismatch_witness:
  "check_args \<lparr>defined = True, sizes = [4, 8], scalar_type = kFloat,
                is_cuda = True, is_contiguous = True\<rparr> [4] \<lparr>n1 = 0, n2 = 0\<rparr> =
     Inl (runtime_error
       [Text ''Given normalized_shape='', Shape [4],
        Text '', expected input with shape [*'', Text '', '', Size 4,
        Text ''], but got input of size'', Shape [4, 8]])"
  using resolveDimensions_shape_mismatch [of "[4]"
      "\<lparr>defined = True, sizes = [4, 8], scalar_type = kFloat,
        is_cuda = True, is_contiguous = True\<rparr>" "\<lparr>n1 = 0, n2 = 0\<rparr>"]
  by simp

text \<open>
  C5. \<open>check_args\<close> on \<open>gamma\<close> and \<open>beta\<close> fails if and only if a defined \<open>gamma\<close> or a
  defined \<open>beta\<close> has a shape other than the normalized shape. \<open>gamma\<close> is checked first: when
  it is defined and of another shape, the error names \<open>gamma\<close>, whatever \<open>beta\<close> is; otherwise
  a defined \<open>beta\<close> of another shape gives the error naming \<open>beta\<close>. An undefined tensor is
  never an error.
\<close>

theorem validateAffineParams_errors:
  "((\<exists>e. check_args_gamma_beta normalized_shape gamma beta = Inl e) \<longleftrightarrow>
      (defined gamma \<and> sizes gamma \<noteq> normalized_shape) \<or>
      (defined beta \<and> sizes beta \<noteq> normalized_shape)) \<and>
   (defined gamma \<and> sizes gamma \<noteq> normalized_shape \<longrightarrow>
      check_args_gamma_beta normalized_shape gamma beta =
        Inl (runtime_error
          [Text ''Expected gamma to be of same shape as normalized_shape, but got '',
           Text ''gamma of shape '', Shape (sizes gamma), Text '' and normalized_shape='',
           Shape normalized_shape])) \<and>
   (\<not> (defined gamma \<and> sizes gamma \<noteq> normalized_shape) \<and>
    defined beta \<and> sizes beta \<noteq> normalized_shape \<longrightarrow>
      check_args_gamma_beta normalized_shape gamma beta =
        Inl (runtime_error
          [Text ''Expected beta to be of same shape as normalized_shape, but got '',
           Text ''beta of shape '', Shape (sizes beta), Text '' and normalized_shape='',
           Shape normalized_shape])) \<and>
   (\<not> defined gamma \<and> \<not> defined beta \<longrightarrow>
      check_args_gamma_beta normalized_shape gamma beta = Inr ())"
  by (simp add: check_args_gamma_beta_def equals_iff)

text \<open>
  The theorem at the normalized shape \<open>[8]\<close>: a \<open>gamma\<close> of shape \<open>[4]\<close> with a \<open>beta\<close> of
  shape \<open>[8]\<close>; an undefined \<open>gamma\<close> with a \<open>beta\<close> of shape \<open>[8, 1]\<close>; both undefined.
\<close>

theorem validateAffineParams_errors_witness:
  "check_args_gamma_beta [8]
     \<lparr>defined = True, sizes = [4], scalar_type = kFloat, is_cuda = True, is_contiguous = True\<rparr>
     \<lparr>defined = True, sizes = [8], scalar_type = kFloat, is_cuda = True, is_contiguous = True\<rparr> =
     Inl (runtime_error
       [Text ''Expected gamma to be of same shape as normalized_shape, but got '',
        Text ''gamma of shape '', Shape [4], Text '' and normalized_shape='', Shape [8]]) \<and>
   check_args_gamma_beta [8]
     \<lparr>defined = False, sizes = [], scalar_type = kFloat, is_cuda = False, is_contiguous = False\<rparr>
     \<lparr>defined = True, sizes = [8, 1], scalar_type = kFloat, is_cuda = True, is_contiguous = True\<rparr> =
     Inl (runtime_error
       [Text ''Expected beta to be of same shape as normalized_shape, but got '',
        Text ''beta of shape '', Shape [8, 1], Text '' and normalized_shape='', Shape [8]]) \<and>
   check_args_gamma_beta [8]
     \<lparr>defined = False, sizes = [], scalar_type = kFloat, is_cuda = False, is_contiguous = False\<rparr>
     \<lparr>defined = False, sizes = [], scalar_type = kFloat, is_cuda = False, is_contiguous = False\<rparr> =
     Inr ()"
  using validateAffineParams_errors [of "[8]"
      "\<lparr>defined = True, sizes = [4], scalar_type = kFloat, is_cuda = True, is_contiguous = True\<rparr>"
      "\<lparr>defined = True, sizes = [8], scalar_type = kFloat, is_cuda = True, is_contiguous = True\<rparr>"]
    validateAffineParams_errors [of "[8]"
      "\<lparr>defined = False, sizes = [], scalar_type = kFloat, is_cuda = False, is_contiguous = False\<rparr>"
      "\<lparr>defined = True, sizes = [8, 1], scalar_type = kFloat, is_cuda = True, is_contiguous = True\<rparr>"]
    validateAffineParams_errors [of "[8]"
      "\<lparr>defined = False, sizes = [], scalar_type = kFloat, is_cuda = False, is_contiguous = False\<rparr>"
      "\<lparr>defined = False, sizes = [], scalar_type = kFloat, is_cuda = False, is_contiguous = False\<rparr>"]
  by simp

section \<open>Purity\<close>

text \<open>
  The only state \<open>compute_n1_n2\<close> touches is the pair of variables behind its two reference
  parameters. The first loop never writes \<open>n1\<close>, so what \<open>n1\<close> held on entry passes through it
  unchanged.
\<close>

lemma loop_n2_n1_update:
  "loop_n2 input ns idiff i (d\<lparr>n1 := a\<rparr>) =
     map_sum (\<lambda>e. e) (\<lambda>r. r\<lparr>n1 := a\<rparr>) (loop_n2 input ns idiff i d)"
proof (induction input ns idiff i d rule: loop_n2.induct)
  case (1 input ns idiff i d)
  show ?case
  proof (cases "at_index (sizes input) (int i + idiff)")
    case None
    then show ?thesis
      by (subst (1 2) loop_n2.simps) simp
  next
    case (Some s)
    show ?thesis
    proof (cases "i < length ns \<and> s = ns ! i")
      case True
      have upd: "d\<lparr>n1 := a, n2 := mul_assign (n2 d) (ns ! i)\<rparr> =
                 d\<lparr>n2 := mul_assign (n2 d) (ns ! i), n1 := a\<rparr>"
        by simp
      have "loop_n2 input ns idiff i (d\<lparr>n1 := a\<rparr>) =
              loop_n2 input ns idiff (Suc i) (d\<lparr>n2 := mul_assign (n2 d) (ns ! i), n1 := a\<rparr>)"
        using True Some by (subst loop_n2.simps) (simp add: upd)
      also have "\<dots> = map_sum (\<lambda>e. e) (\<lambda>r. r\<lparr>n1 := a\<rparr>)
                         (loop_n2 input ns idiff (Suc i) (d\<lparr>n2 := mul_assign (n2 d) (ns ! i)\<rparr>))"
        using True Some 1 by simp
      also have "loop_n2 input ns idiff (Suc i) (d\<lparr>n2 := mul_assign (n2 d) (ns ! i)\<rparr>) =
                 loop_n2 input ns idiff i d"
        using True Some by (subst (2) loop_n2.simps) simp
      finally show ?thesis .
    next
      case False
      with Some show ?thesis
        by (subst (1 2) loop_n2.simps) auto
    qed
  qed
qed

lemma compute_n1_n2_initial:
  "compute_n1_n2 input ns d = compute_n1_n2 input ns d'"
proof -
  let ?idiff = "int (length (sizes input)) - int (length ns)"
  have eq: "d\<lparr>n2 := 1\<rparr> = (d'\<lparr>n2 := 1\<rparr>)\<lparr>n1 := n1 d\<rparr>"
    by (cases d, cases d') simp
  have "loop_n2 input ns ?idiff 0 (d\<lparr>n2 := 1\<rparr>) =
          map_sum (\<lambda>e. e) (\<lambda>r. r\<lparr>n1 := n1 d\<rparr>) (loop_n2 input ns ?idiff 0 (d'\<lparr>n2 := 1\<rparr>))"
    by (subst eq) (rule loop_n2_n1_update)
  then show ?thesis
    by (cases "loop_n2 input ns ?idiff 0 (d'\<lparr>n2 := 1\<rparr>)") (simp_all add: compute_n1_n2_def)
qed

text \<open>
  Of the input tensor the two loops read the shape and nothing else.
\<close>

lemma loop_n2_sizes:
  assumes "sizes input = sizes input'"
  shows "loop_n2 input ns idiff i d = loop_n2 input' ns idiff i d"
  using assms
proof (induction input ns idiff i d rule: loop_n2.induct)
  case (1 input ns idiff i d)
  show ?case
    by (subst loop_n2.simps, subst (2) loop_n2.simps)
      (auto simp: 1(2) [symmetric] split: option.splits intro!: 1(1) [OF _ _ _ 1(2)])
qed

lemma loop_n1_sizes:
  assumes "sizes input = sizes input'"
  shows "loop_n1 input idiff i d = loop_n1 input' idiff i d"
  using assms
proof (induction input idiff i d rule: loop_n1.induct)
  case (1 input idiff i d)
  show ?case
    by (subst loop_n1.simps, subst (2) loop_n1.simps)
      (auto simp: 1(2) [symmetric] split: option.splits intro!: 1(1) [OF _ _ 1(2)])
qed

lemma compute_n1_n2_sizes:
  assumes "sizes input = sizes input'"
  shows "compute_n1_n2 input ns d = compute_n1_n2 input' ns d'"
proof -
  have "compute_n1_n2 input ns d = compute_n1_n2 input' ns d"
    unfolding compute_n1_n2_def Let_def
    by (simp only: assms loop_n2_sizes [OF assms] loop_n1_sizes [OF assms])
  then show ?thesis
    using compute_n1_n2_initial [of input' ns d d'] by simp
qed

text \<open>
  C8. \<open>check_args\<close> and \<open>compute_n1_n2\<close> are functions of the input shape and the normalized
  shape alone: two calls whose tensors have the same shape and whose normalized shapes are
  the same give the same outcome, error or \<open>(n1, n2)\<close>, whatever the other properties of the
  tensors are and whatever the variables \<open>n1\<close> and \<open>n2\<close> held before either call. The two
  variables, which carry the result, are the only state the functions write.
\<close>

theorem resolveDimensions_pure:
  assumes "sizes input = sizes input'"
  shows "check_args input normalized_shape d = check_args input' normalized_shape d' \<and>
         compute_n1_n2 input normalized_shape d = compute_n1_n2 input' normalized_shape d'"
  using compute_n1_n2_sizes [OF assms, of normalized_shape d d']
  by (simp add: check_args_def Let_def assms)

text \<open>
  The theorem at two tensors of shape \<open>[4, 8]\<close> that differ in every other property, with
  different prior contents of \<open>n1\<close> and \<open>n2\<close>.
\<close>

theorem resolveDimensions_pure_witness:
  "check_args \<lparr>defined = True, sizes = [4, 8], scalar_type = kFloat,
                is_cuda = True, is_contiguous = True\<rparr> [8] \<lparr>n1 = 7, n2 = 9\<rparr> =
   check_args \<lparr>defined = False, sizes = [4, 8], scalar_type = kLong,
                is_cuda = False, is_contiguous = False\<rparr> [8] \<lparr>n1 = 0, n2 = 0\<rparr> \<and>
   check_args \<lparr>defined = True, sizes = [4, 8], scalar_type = kFloat,
                is_cuda = True, is_contiguous = True\<rparr> [8] \<lparr>n1 = 7, n2 = 9\<rparr> =
   Inr \<lparr>n1 = 4, n2 = 8\<rparr>"
proof -
  let ?a = "\<lparr>defined = True, sizes = [4, 8], scalar_type = kFloat,
                is_cuda = True, is_contiguous = True\<rparr>"
  let ?b = "\<lparr>defined = False, sizes = [4, 8], scalar_type = kLong,
                is_cuda = False, is_contiguous = False\<rparr>"
  have same: "sizes ?a = sizes ?b"
    by simp
  have "check_args ?a [8] \<lparr>n1 = 7, n2 = 9\<rparr> = check_args ?b [8] \<lparr>n1 = 0, n2 = 0\<rparr>"
    using resolveDimensions_pure [OF same, of "[8]" "\<lparr>n1 = 7, n2 = 9\<rparr>" "\<lparr>n1 = 0, n2 = 0\<rparr>"]
    by (rule conjunct1)
  moreover have "check_args ?a [8] \<lparr>n1 = 7, n2 = 9\<rparr> = Inr \<lparr>n1 = 4, n2 = 8\<rparr>"
    by code_simp
  ultimately show ?thesis
    by (rule conjI)
qed

section \<open>32-bit accumulation\<close>

lemma uint_int32_mod: "uint (word_of_int k :: int32) = k mod 2 ^ 32"
  by (simp add: uint_word_of_int_eq take_bit_eq_mod)

lemma compute_n1_n2_valid_product:
  assumes "valid_pair (sizes input) ns"
  shows "compute_n1_n2 input ns d =
           Inr \<lparr>n1 = word_of_int (product (take (length (sizes input) - length ns) (sizes input))),
                n2 = word_of_int (product ns)\<rparr>"
  by (simp add: compute_n1_n2_suffix [OF valid_pair_split [OF assms]] foldl_mul_assign)

text \<open>
  C9. \<open>compute_n1_n2\<close> accumulates \<open>n1\<close> and \<open>n2\<close> in 32-bit \<^verbatim>\<open>int\<close> over 64-bit sizes. For
  every valid pair it returns, without an error, the two products reduced modulo \<open>2^32\<close>;
  the returned \<open>n1\<close> (or \<open>n2\<close>), read as a signed \<^verbatim>\<open>int\<close>, equals the mathematical product
  exactly when that product fits in a 32-bit signed \<^verbatim>\<open>int\<close>.
\<close>

theorem compute_n1_n2_wraps:
  assumes "valid_pair (sizes input) normalized_shape"
  shows "\<exists>r. compute_n1_n2 input normalized_shape d = Inr r \<and>
           check_args input normalized_shape d = Inr r \<and>
           uint (n1 r) =
             product (take (length (sizes input) - length normalized_shape) (sizes input)) mod 2 ^ 32 \<and>
           uint (n2 r) = product normalized_shape mod 2 ^ 32 \<and>
           (sint (n1 r) =
              product (take (length (sizes input) - length normalized_shape) (sizes input)) \<longleftrightarrow>
            fits_int32
              (product (take (length (sizes input) - length normalized_shape) (sizes input)))) \<and>
           (sint (n2 r) = product normalized_shape \<longleftrightarrow> fits_int32 (product normalized_shape))"
  by (simp add: check_args_valid_product [OF assms] compute_n1_n2_valid_product [OF assms]
      uint_int32_mod sint_int32_iff)

text \<open>
  The theorem at the input shape \<open>[65536, 32768, 3]\<close> with normalized shape \<open>[3]\<close>: the
  leading product \<open>2^31\<close> does not fit and comes back as the bit pattern of \<open>- 2^31\<close>.
\<close>

theorem compute_n1_n2_wraps_witness:
  "\<exists>r. compute_n1_n2 \<lparr>defined = True, sizes = [65536, 32768, 3], scalar_type = kByte,
            is_cuda = True, is_contiguous = True\<rparr> [3] \<lparr>n1 = 0, n2 = 0\<rparr> = Inr r \<and>
       check_args \<lparr>defined = True, sizes = [65536, 32768, 3], scalar_type = kByte,
            is_cuda = True, is_contiguous = True\<rparr> [3] \<lparr>n1 = 0, n2 = 0\<rparr> = Inr r \<and>
       uint (n1 r) = 2147483648 \<and> uint (n2 r) = 3 \<and>
       sint (n1 r) \<noteq> 2147483648 \<and> sint (n2 r) = 3"
  using compute_n1_n2_wraps [of
      "\<lparr>defined = True, sizes = [65536, 32768, 3], scalar_type = kByte,
        is_cuda = True, is_contiguous = True\<rparr>" "[3]" "\<lparr>n1 = 0, n2 = 0\<rparr>"]
  by (simp add: valid_pair_def product_def fits_int32_def)

section \<open>The assertion in \<^verbatim>\<open>compute_n1_n2\<close>\<close>

text \<open>
  C10. When the two guards of \<open>check_args\<close> have let a call through to \<open>compute_n1_n2\<close>, the
  condition of \<^verbatim>\<open>assert( input.sizes()[i+idiff] == normalized_shape[i] )\<close> holds at every
  index \<open>i\<close> of the first loop, \<open>compute_n1_n2\<close> returns, and \<open>check_args\<close> does not end in a
  failed assertion.
\<close>

theorem assert_unreachable_from_check_args:
  assumes "\<not> length normalized_shape < 1"
    and "\<not> (length (sizes input) < length normalized_shape \<or>
            \<not> equals (slice (sizes input) (length (sizes input) - length normalized_shape))
                 normalized_shape)"
  shows "(\<forall>i < length normalized_shape.
            at_index (sizes input)
              (int i + (int (length (sizes input)) - int (length normalized_shape))) =
            Some (normalized_shape ! i)) \<and>
         (\<exists>r. compute_n1_n2 input normalized_shape d = Inr r) \<and>
         check_args input normalized_shape d \<noteq> Inl assert_abort"
proof -
  have valid: "valid_pair (sizes input) normalized_shape"
    using assms by (simp add: valid_pair_def equals_iff slice_def)
  let ?k = "length (sizes input) - length normalized_shape"
  have split: "sizes input = take ?k (sizes input) @ normalized_shape"
    by (rule valid_pair_split [OF valid])
  have len: "length (take ?k (sizes input)) = ?k"
    by simp
  have "at_index (sizes input) (int i + (int (length (sizes input)) - int (length normalized_shape))) =
          Some (normalized_shape ! i)" if "i < length normalized_shape" for i
  proof -
    have le: "length normalized_shape \<le> length (sizes input)"
      using valid by (simp add: valid_pair_def)
    have range: "0 \<le> int i + (int (length (sizes input)) - int (length normalized_shape))"
      "int i + (int (length (sizes input)) - int (length normalized_shape)) < int (length (sizes input))"
      using that le by simp_all
    have idx: "nat (int i + (int (length (sizes input)) - int (length normalized_shape))) = ?k + i"
      using le by simp
    have "(take ?k (sizes input) @ normalized_shape) ! (?k + i) = normalized_shape ! i"
      by (simp only: nth_append_length_plus [of "take ?k (sizes input)", unfolded len])
    then have nth: "sizes input ! (?k + i) = normalized_shape ! i"
      using split by simp
    show ?thesis
      unfolding at_index_def by (simp only: range idx nth simp_thms if_True)
  qed
  moreover have "\<exists>r. compute_n1_n2 input normalized_shape d = Inr r"
    using compute_n1_n2_suffix [OF split] by blast
  moreover have "check_args input normalized_shape d \<noteq> Inl assert_abort"
    using check_args_valid [OF valid] by simp
  ultimately show ?thesis by blast
qed

text \<open>The theorem at the input shape \<open>[2, 3, 8]\<close> with normalized shape \<open>[3, 8]\<close>.\<close>

theorem assert_unreachable_from_check_args_witness:
  "at_index [2, 3, 8] 1 = Some 3 \<and> at_index [2, 3, 8] 2 = Some 8 \<and>
   (\<exists>r. compute_n1_n2 \<lparr>defined = True, sizes = [2, 3, 8], scalar_type = kFloat,
            is_cuda = True, is_contiguous = True\<rparr> [3, 8] \<lparr>n1 = 0, n2 = 0\<rparr> = Inr r)"
proof -
  let ?input = "\<lparr>defined = True, sizes = [2, 3, 8], scalar_type = kFloat,
                  is_cuda = True, is_contiguous = True\<rparr>"
  have a: "\<not> length [3, 8 :: int64] < 1"
    by simp
  have b: "\<not> (length (sizes ?input) < length [3, 8 :: int64] \<or>
              \<not> equals (slice (sizes ?input) (length (sizes ?input) - length [3, 8 :: int64]))
                   [3, 8])"
    by (simp add: equals_def slice_def)
  note t = assert_unreachable_from_check_args [OF a b, of "\<lparr>n1 = 0, n2 = 0\<rparr>"]
  from t have all: "\<forall>i < length [3, 8 :: int64].
      at_index (sizes ?input) (int i + (int (length (sizes ?input)) - int (length [3, 8 :: int64]))) =
      Some ([3, 8] ! i)"
    by (rule conjunct1)
  from all [rule_format, of 0] have "at_index [2, 3, 8] 1 = Some 3"
    by simp
  moreover from all [rule_format, of 1] have "at_index [2, 3, 8] 2 = Some 8"
    by simp
  moreover from t have "\<exists>r. compute_n1_n2 ?input [3, 8] \<lparr>n1 = 0, n2 = 0\<rparr> = Inr r"
    by blast
  ultimately show ?thesis by blast
qed

section \<open>The entry points: order of validation, allocation and dispatch\<close>

lemma bindE_liftE:
  "bindE (liftE r) f s = (case r of Inl e \<Rightarrow> (Inl e, s) | Inr x \<Rightarrow> f x s)"
  by (simp add: bindE_def liftE_def split: sum.splits)

lemma allocate_layer_norm_output_tensors_result:
  "allocate_layer_norm_output_tensors T input m1 s =
     (let st = (if T = kLong \<or> T = kDouble then kDouble else kFloat);
          output = \<lparr>defined = True, sizes = sizes input, scalar_type = scalar_type input,
                    is_cuda = is_cuda input, is_contiguous = True\<rparr>;
          mean = \<lparr>defined = True, sizes = [scast m1], scalar_type = st,
                  is_cuda = is_cuda input, is_contiguous = True\<rparr>
      in (Inr (output, mean, mean), s @ [Allocated output, Allocated mean, Allocated mean]))"
  by (cases T)
    (simp_all add: bindE_def returnE_def at_empty_def at_empty_like_def options_def dtype_def Let_def)

lemma layer_norm_tail_ok:
  "\<not> isl (fst (bindE (AT_DISPATCH_ALL_TYPES_AND_HALF T
              (\<lambda>scalar_t. allocate_layer_norm_output_tensors scalar_t input m1))
       (\<lambda>(output, mean, invvar).
     bindE (cuda_layer_norm output mean invvar input m1 m2 ns g b epsilon) (\<lambda>u.
     returnE [output, mean, invvar])) s))"
  by (simp add: AT_DISPATCH_ALL_TYPES_AND_HALF_def allocate_layer_norm_output_tensors_result
      bindE_def returnE_def cuda_layer_norm_def Let_def)

lemma layer_norm_error_log:
  "isl (fst (layer_norm input ns eps d0 s)) \<Longrightarrow> snd (layer_norm input ns eps d0 s) = s"
  unfolding layer_norm_def bindE_liftE
  by (auto split: sum.splits simp: layer_norm_tail_ok)

lemma layer_norm_affine_error_log:
  "isl (fst (layer_norm_affine input ns gamma beta eps d0 s)) \<Longrightarrow>
   snd (layer_norm_affine input ns gamma beta eps d0 s) = s"
  unfolding layer_norm_affine_def bindE_liftE
  by (auto split: sum.splits simp: layer_norm_tail_ok)

lemma layer_norm_gradient_error_log:
  "isl (fst (layer_norm_gradient dout mean invvar input ns eps d0 s)) \<Longrightarrow>
   snd (layer_norm_gradient dout mean invvar input ns eps d0 s) = s"
  unfolding layer_norm_gradient_def bindE_liftE
  by (auto split: sum.splits
      simp: bindE_def returnE_def at_empty_def at_empty_like_def cuda_layer_norm_gradient_def Let_def)

lemma layer_norm_gradient_affine_error_log:
  "isl (fst (layer_norm_gradient_affine dout mean invvar input ns gamma beta eps d0 s)) \<Longrightarrow>
   snd (layer_norm_gradient_affine dout mean invvar input ns gamma beta eps d0 s) = s"
  unfolding layer_norm_gradient_affine_def bindE_liftE
  by (auto split: sum.splits
      simp: bindE_def returnE_def at_empty_def at_empty_like_def cuda_layer_norm_gradient_def Let_def)

text \<open>
  C7. In each of the four entry points, a call that ends in an error leaves the log of
  allocations and kernel dispatches exactly as it found it: every check (device, contiguity,
  empty normalized shape, shape mismatch) comes before the first allocation and before the
  dispatch.
\<close>

theorem validation_before_effects:
  "(isl (fst (layer_norm input normalized_shape epsilon d0 s)) \<longrightarrow>
      snd (layer_norm input normalized_shape epsilon d0 s) = s) \<and>
   (isl (fst (layer_norm_affine input normalized_shape gamma beta epsilon d0 s)) \<longrightarrow>
      snd (layer_norm_affine input normalized_shape gamma beta epsilon d0 s) = s) \<and>
   (isl (fst (layer_norm_gradient dout mean invvar input normalized_shape epsilon d0 s)) \<longrightarrow>
      snd (layer_norm_gradient dout mean invvar input normalized_shape epsilon d0 s) = s) \<and>
   (isl (fst (layer_norm_gradient_affine dout mean invvar input normalized_shape gamma beta
                epsilon d0 s)) \<longrightarrow>
      snd (layer_norm_gradient_affine dout mean invvar input normalized_shape gamma beta
             epsilon d0 s) = s)"
proof (intro conjI impI)
  assume "isl (fst (layer_norm input normalized_shape epsilon d0 s))"
  then show "snd (layer_norm input normalized_shape epsilon d0 s) = s"
    by (rule layer_norm_error_log)
next
  assume "isl (fst (layer_norm_affine input normalized_shape gamma beta epsilon d0 s))"
  then show "snd (layer_norm_affine input normalized_shape gamma beta epsilon d0 s) = s"
    by (rule layer_norm_affine_error_log)
next
  assume "isl (fst (layer_norm_gradient dout mean invvar input normalized_shape epsilon d0 s))"
  then show "snd (layer_norm_gradient dout mean invvar input normalized_shape epsilon d0 s) = s"
    by (rule layer_norm_gradient_error_log)
next
  assume "isl (fst (layer_norm_gradient_affine dout mean invvar input normalized_shape gamma beta
                      epsilon d0 s))"
  then show "snd (layer_norm_gradient_affine dout mean invvar input normalized_shape gamma beta
                    epsilon d0 s) = s"
    by (rule layer_norm_gradient_affine_error_log)
qed

text \<open>
  The theorem at four failing calls: an empty normalized shape in \<open>layer_norm\<close>; a \<open>gamma\<close> of
  the wrong shape in \<open>layer_norm_affine\<close>; an input whose trailing dimension is not the
  normalized shape in \<open>layer_norm_gradient\<close>; a \<open>beta\<close> that is not a CUDA tensor in
  \<open>layer_norm_gradient_affine\<close>.
\<close>

theorem validation_before_effects_witness:
  "snd (layer_norm
          \<lparr>defined = True, sizes = [4, 8], scalar_type = kFloat, is_cuda = True,
            is_contiguous = True\<rparr> [] () \<lparr>n1 = 0, n2 = 0\<rparr> []) = [] \<and>
   snd (layer_norm_affine
          \<lparr>defined = True, sizes = [4, 8], scalar_type = kFloat, is_cuda = True,
            is_contiguous = True\<rparr> [8]
          \<lparr>defined = True, sizes = [4], scalar_type = kFloat, is_cuda = True,
            is_contiguous = True\<rparr>
          \<lparr>defined = True, sizes = [8], scalar_type = kFloat, is_cuda = True,
            is_contiguous = True\<rparr> () \<lparr>n1 = 0, n2 = 0\<rparr> []) = [] \<and>
   snd (layer_norm_gradient
          \<lparr>defined = True, sizes = [4, 8], scalar_type = kFloat, is_cuda = True,
            is_contiguous = True\<rparr>
          \<lparr>defined = True, sizes = [4], scalar_type = kFloat, is_cuda = True,
            is_contiguous = True\<rparr>
          \<lparr>defined = True, sizes = [4], scalar_type = kFloat, is_cuda = True,
            is_contiguous = True\<rparr>
          \<lparr>defined = True, sizes = [4, 8], scalar_type = kFloat, is_cuda = True,
            is_contiguous = True\<rparr> [4] () \<lparr>n1 = 0, n2 = 0\<rparr> []) = [] \<and>
   snd (layer_norm_gradient_affine
          \<lparr>defined = True, sizes = [4, 8], scalar_type = kFloat, is_cuda = True,
            is_contiguous = True\<rparr>
          \<lparr>defined = True, sizes = [4], scalar_type = kFloat, is_cuda = True,
            is_contiguous = True\<rparr>
          \<lparr>defined = True, sizes = [4], scalar_type = kFloat, is_cuda = True,
            is_contiguous = True\<rparr>
          \<lparr>defined = True, sizes = [4, 8], scalar_type = kFloat, is_cuda = True,
            is_contiguous = True\<rparr> [8]
          \<lparr>defined = True, sizes = [8], scalar_type = kFloat, is_cuda = True,
            is_contiguous = True\<rparr>
          \<lparr>defined = True, sizes = [8], scalar_type = kFloat, is_cuda = False,
            is_contiguous = True\<rparr> () \<lparr>n1 = 0, n2 = 0\<rparr> []) = []"
proof -
  let ?x = "\<lparr>defined = True, sizes = [4, 8], scalar_type = kFloat, is_cuda = True,
             is_contiguous = True\<rparr>"
  let ?m = "\<lparr>defined = True, sizes = [4], scalar_type = kFloat, is_cuda = True,
             is_contiguous = True\<rparr>"
  let ?g = "\<lparr>defined = True, sizes = [8], scalar_type = kFloat, is_cuda = True,
             is_contiguous = True\<rparr>"
  let ?cpu = "\<lparr>defined = True, sizes = [8], scalar_type = kFloat, is_cuda = False,
               is_contiguous = True\<rparr>"
  let ?d = "\<lparr>n1 = 0, n2 = 0\<rparr>"
  have 1: "isl (fst (layer_norm ?x [] () ?d []))"
    by code_simp
  have 2: "isl (fst (layer_norm_affine ?x [8] ?m ?g () ?d []))"
    by code_simp
  have 3: "isl (fst (layer_norm_gradient ?x ?m ?m ?x [4] () ?d []))"
    by code_simp
  have 4: "isl (fst (layer_norm_gradient_affine ?x ?m ?m ?x [8] ?g ?cpu () ?d []))"
    by code_simp
  note t = validation_before_effects
  from 1 t [where input = ?x and normalized_shape = "[]" and epsilon = "()" and ?d0.0 = ?d
      and s = "[]"]
  have "snd (layer_norm ?x [] () ?d []) = []" by blast
  moreover from 2 t [where input = ?x and normalized_shape = "[8]" and epsilon = "()"
      and ?d0.0 = ?d and s = "[]" and gamma = ?m and beta = ?g]
  have "snd (layer_norm_affine ?x [8] ?m ?g () ?d []) = []" by blast
  moreover from 3 t [where input = ?x and normalized_shape = "[4]" and epsilon = "()"
      and ?d0.0 = ?d and s = "[]" and dout = ?x and mean = ?m and invvar = ?m]
  have "snd (layer_norm_gradient ?x ?m ?m ?x [4] () ?d []) = []" by blast
  moreover from 4 t [where input = ?x and normalized_shape = "[8]" and epsilon = "()"
      and ?d0.0 = ?d and s = "[]" and dout = ?x and mean = ?m and invvar = ?m
      and gamma = ?g and beta = ?cpu]
  have "snd (layer_norm_gradient_affine ?x ?m ?m ?x [8] ?g ?cpu () ?d []) = []" by blast
  ultimately show ?thesis by blast
qed

section \<open>The statistics tensors of the forward pass\<close>

lemma layer_norm_success:
  assumes "layer_norm input ns eps d0 s = (Inr ts, s')"
  shows "\<exists>r output mean invvar.
           check_args input ns d0 = Inr r \<and> ts = [output, mean, invvar] \<and>
           sizes mean = [scast (n1 r)] \<and> sizes invvar = [scast (n1 r)] \<and>
           scalar_type mean =
             (if scalar_type input = kLong \<or> scalar_type input = kDouble then kDouble else kFloat) \<and>
           scalar_type invvar = scalar_type mean"
  using assms
  unfolding layer_norm_def bindE_liftE
  by (auto split: sum.splits
      simp: AT_DISPATCH_ALL_TYPES_AND_HALF_def allocate_layer_norm_output_tensors_result
        bindE_def returnE_def cuda_layer_norm_def Let_def)

lemma check_args_all_Inr:
  "check_args_all input ns gamma beta d0 = Inr r \<Longrightarrow> check_args input ns d0 = Inr r"
  by (auto simp: check_args_all_def split: sum.splits)

lemma layer_norm_affine_success:
  assumes "layer_norm_affine input ns gamma beta eps d0 s = (Inr ts, s')"
  shows "\<exists>r output mean invvar.
           check_args input ns d0 = Inr r \<and> ts = [output, mean, invvar] \<and>
           sizes mean = [scast (n1 r)] \<and> sizes invvar = [scast (n1 r)] \<and>
           scalar_type mean =
             (if scalar_type input = kLong \<or> scalar_type input = kDouble then kDouble else kFloat) \<and>
           scalar_type invvar = scalar_type mean"
  using assms
  unfolding layer_norm_affine_def bindE_liftE
  by (auto split: sum.splits dest!: check_args_all_Inr
      simp: AT_DISPATCH_ALL_TYPES_AND_HALF_def allocate_layer_norm_output_tensors_result
        bindE_def returnE_def cuda_layer_norm_def Let_def)

lemma extended_precision_kFloat:
  "extended_precision_float (if T = kLong \<or> T = kDouble then kDouble else kFloat) T \<longleftrightarrow>
     T = kByte \<or> T = kChar \<or> T = kShort \<or> T = kHalf"
  by (cases T) (simp_all add: extended_precision_float_def)

text \<open>
  C6 (amended). For every input tensor that \<open>layer_norm\<close> or \<open>layer_norm_affine\<close> accepts,
  the allocated \<open>mean\<close> and \<open>invvar\<close> have shape \<open>[n1]\<close> and the element type \<^verbatim>\<open>at::kFloat\<close>,
  except that an input of element type double or int64 gives \<^verbatim>\<open>at::kDouble\<close>. That type
  is a float type of extended precision relative to the input's element type exactly for
  half, uint8, int8 and int16 inputs.
\<close>

theorem forward_statistics_tensors:
  "(layer_norm input normalized_shape epsilon d0 s = (Inr ts, s') \<or>
    layer_norm_affine input normalized_shape gamma beta epsilon d0 s = (Inr ts, s') \<longrightarrow>
      (\<exists>r output mean invvar.
         check_args input normalized_shape d0 = Inr r \<and> ts = [output, mean, invvar] \<and>
         sizes mean = [scast (n1 r)] \<and> sizes invvar = [scast (n1 r)] \<and>
         scalar_type mean =
           (if scalar_type input = kLong \<or> scalar_type input = kDouble then kDouble else kFloat) \<and>
         scalar_type invvar = scalar_type mean \<and>
         (extended_precision_float (scalar_type mean) (scalar_type input) \<longleftrightarrow>
            scalar_type input = kByte \<or> scalar_type input = kChar \<or>
            scalar_type input = kShort \<or> scalar_type input = kHalf)))"
proof (intro impI)
  assume ok: "layer_norm input normalized_shape epsilon d0 s = (Inr ts, s') \<or>
    layer_norm_affine input normalized_shape gamma beta epsilon d0 s = (Inr ts, s')"
  have "\<exists>r output mean invvar.
           check_args input normalized_shape d0 = Inr r \<and> ts = [output, mean, invvar] \<and>
           sizes mean = [scast (n1 r)] \<and> sizes invvar = [scast (n1 r)] \<and>
           scalar_type mean =
             (if scalar_type input = kLong \<or> scalar_type input = kDouble then kDouble else kFloat) \<and>
           scalar_type invvar = scalar_type mean"
    using ok
  proof
    assume "layer_norm input normalized_shape epsilon d0 s = (Inr ts, s')"
    then show ?thesis by (rule layer_norm_success)
  next
    assume "layer_norm_affine input normalized_shape gamma beta epsilon d0 s = (Inr ts, s')"
    then show ?thesis by (rule layer_norm_affine_success)
  qed
  then obtain r out mean invvar where *:
    "check_args input normalized_shape d0 = Inr r" "ts = [out, mean, invvar]"
    "sizes mean = [scast (n1 r)]" "sizes invvar = [scast (n1 r)]"
    "scalar_type mean =
       (if scalar_type input = kLong \<or> scalar_type input = kDouble then kDouble else kFloat)"
    "scalar_type invvar = scalar_type mean"
    by blast
  have "extended_precision_float (scalar_type mean) (scalar_type input) \<longleftrightarrow>
            scalar_type input = kByte \<or> scalar_type input = kChar \<or>
            scalar_type input = kShort \<or> scalar_type input = kHalf"
    unfolding *(5) by (rule extended_precision_kFloat)
  with * show "\<exists>r output mean invvar.
         check_args input normalized_shape d0 = Inr r \<and> ts = [output, mean, invvar] \<and>
         sizes mean = [scast (n1 r)] \<and> sizes invvar = [scast (n1 r)] \<and>
         scalar_type mean =
           (if scalar_type input = kLong \<or> scalar_type input = kDouble then kDouble else kFloat) \<and>
         scalar_type invvar = scalar_type mean \<and>
         (extended_precision_float (scalar_type mean) (scalar_type input) \<longleftrightarrow>
            scalar_type input = kByte \<or> scalar_type input = kChar \<or>
            scalar_type input = kShort \<or> scalar_type input = kHalf)"
    by blast
qed

text \<open>
  The theorem at a half tensor of shape \<open>[4, 8]\<close> normalized over \<open>[8]\<close> in \<open>layer_norm\<close>, and
  at an int64 tensor of shape \<open>[2, 3, 8]\<close> normalized over \<open>[3, 8]\<close> in \<open>layer_norm_affine\<close>.
\<close>

theorem forward_statistics_tensors_witness:
  "(\<exists>output mean invvar.
      fst (layer_norm
             \<lparr>defined = True, sizes = [4, 8], scalar_type = kHalf, is_cuda = True,
               is_contiguous = True\<rparr> [8] () \<lparr>n1 = 0, n2 = 0\<rparr> []) = Inr [output, mean, invvar] \<and>
      sizes mean = [4] \<and> sizes invvar = [4] \<and>
      scalar_type mean = kFloat \<and> scalar_type invvar = kFloat \<and>
      extended_precision_float (scalar_type mean) kHalf) \<and>
   (\<exists>output mean invvar.
      fst (layer_norm_affine
             \<lparr>defined = True, sizes = [2, 3, 8], scalar_type = kLong, is_cuda = True,
               is_contiguous = True\<rparr> [3, 8]
             \<lparr>defined = True, sizes = [3, 8], scalar_type = kLong, is_cuda = True,
               is_contiguous = True\<rparr>
             \<lparr>defined = True, sizes = [3, 8], scalar_type = kLong, is_cuda = True,
               is_contiguous = True\<rparr> () \<lparr>n1 = 0, n2 = 0\<rparr> []) = Inr [output, mean, invvar] \<and>
      sizes mean = [2] \<and> sizes invvar = [2] \<and>
      scalar_type mean = kDouble \<and> scalar_type invvar = kDouble)"
proof -
  let ?d = "\<lparr>n1 = 0, n2 = 0\<rparr>"
  let ?x = "\<lparr>defined = True, sizes = [4, 8], scalar_type = kHalf, is_cuda = True,
              is_contiguous = True\<rparr>"
  let ?m = "\<lparr>defined = True, sizes = [4], scalar_type = kFloat, is_cuda = True,
              is_contiguous = True\<rparr>"
  let ?log = "[Allocated ?x, Allocated ?m, Allocated ?m,
               Dispatch_cuda_layer_norm ?x ?m ?m ?x 4 8 [8] None None ()]"
  have run: "layer_norm ?x [8] () ?d [] = (Inr [?x, ?m, ?m], ?log)"
    by code_simp
  have chk: "check_args ?x [8] ?d = Inr \<lparr>n1 = 4, n2 = 8\<rparr>"
    by code_simp
  from run forward_statistics_tensors [where input = ?x and normalized_shape = "[8]"
      and epsilon = "()" and ?d0.0 = ?d and s = "[]" and ts = "[?x, ?m, ?m]" and s' = ?log]
  obtain r out mean invvar where
    "check_args ?x [8] ?d = Inr r" "[?x, ?m, ?m] = [out, mean, invvar]"
    "sizes mean = [scast (n1 r)]" "sizes invvar = [scast (n1 r)]"
    "scalar_type mean = kFloat" "scalar_type invvar = scalar_type mean"
    "extended_precision_float (scalar_type mean) kHalf"
    by auto
  with run chk have first: "\<exists>output mean invvar.
      fst (layer_norm ?x [8] () ?d []) = Inr [output, mean, invvar] \<and>
      sizes mean = [4] \<and> sizes invvar = [4] \<and>
      scalar_type mean = kFloat \<and> scalar_type invvar = kFloat \<and>
      extended_precision_float (scalar_type mean) kHalf"
    by auto
  let ?y = "\<lparr>defined = True, sizes = [2, 3, 8], scalar_type = kLong, is_cuda = True,
              is_contiguous = True\<rparr>"
  let ?g = "\<lparr>defined = True, sizes = [3, 8], scalar_type = kLong, is_cuda = True,
              is_contiguous = True\<rparr>"
  let ?o = "\<lparr>defined = True, sizes = [2, 3, 8], scalar_type = kLong, is_cuda = True,
              is_contiguous = True\<rparr>"
  let ?n = "\<lparr>defined = True, sizes = [2], scalar_type = kDouble, is_cuda = True,
              is_contiguous = True\<rparr>"
  let ?log2 = "[Allocated ?o, Allocated ?n, Allocated ?n,
                Dispatch_cuda_layer_norm ?o ?n ?n ?y 2 24 [3, 8] (Some ?g) (Some ?g) ()]"
  have run2: "layer_norm_affine ?y [3, 8] ?g ?g () ?d [] = (Inr [?o, ?n, ?n], ?log2)"
    by code_simp
  have chk2: "check_args ?y [3, 8] ?d = Inr \<lparr>n1 = 2, n2 = 24\<rparr>"
    by code_simp
  from run2 forward_statistics_tensors [where input = ?y and normalized_shape = "[3, 8]"
      and epsilon = "()" and ?d0.0 = ?d and s = "[]" and ts = "[?o, ?n, ?n]" and s' = ?log2
      and gamma = ?g and beta = ?g]
  obtain r2 out2 mean2 invvar2 where
    "check_args ?y [3, 8] ?d = Inr r2" "[?o, ?n, ?n] = [out2, mean2, invvar2]"
    "sizes mean2 = [scast (n1 r2)]" "sizes invvar2 = [scast (n1 r2)]"
    "scalar_type mean2 = kDouble" "scalar_type invvar2 = scalar_type mean2"
    by auto
  with run2 chk2 have second: "\<exists>output mean invvar.
      fst (layer_norm_affine ?y [3, 8] ?g ?g () ?d []) = Inr [output, mean, invvar] \<and>
      sizes mean = [2] \<and> sizes invvar = [2] \<and>
      scalar_type mean = kDouble \<and> scalar_type invvar = kDouble"
    by auto
  from first second show ?thesis
    by (rule conjI)
qed

text \<open>
  For a float input of shape \<open>[4, 8]\<close> the statistics are float as well: the same type as
  the input, not one of extended precision relative to it.
\<close>

theorem forward_statistics_tensors_counterexample:
  "fst (layer_norm
          \<lparr>defined = True, sizes = [4, 8], scalar_type = kFloat, is_cuda = True,
            is_contiguous = True\<rparr> [8] () \<lparr>n1 = 0, n2 = 0\<rparr> []) =
     Inr [\<lparr>defined = True, sizes = [4, 8], scalar_type = kFloat, is_cuda = True,
            is_contiguous = True\<rparr>,
          \<lparr>defined = True, sizes = [4], scalar_type = kFloat, is_cuda = True,
            is_contiguous = True\<rparr>,
          \<lparr>defined = True, sizes = [4], scalar_type = kFloat, is_cuda = True,
            is_contiguous = True\<rparr>] \<and>
   \<not> extended_precision_float kFloat kFloat"
  by (simp add: extended_precision_float_def) code_simp

end
